theory Spec2Isabelle
  imports Complex_Main "HOL-Library.Log_Nat"
begin

section \<open>Command output observations of OpenHands\<close>

text \<open>
  A shallow embedding of \<^verbatim>\<open>openhands/events/observation/commands.py\<close>.
  Python text is a \<^typ>\<open>string\<close>: a list of characters, each standing for one code
  point below 256, so \<^term>\<open>length\<close> is Python's \<^verbatim>\<open>len\<close>. Python integers
  are \<^typ>\<open>int\<close>. Every exception the source can raise is a value of \<open>py_error\<close>.
\<close>

subsection \<open>Python values and exceptions\<close>

datatype py_error =
  JSONDecodeError | ValueError | TypeError | OverflowError | AttributeError
  | KeyError | ValidationError | RecursionError

text \<open>
  A Python float is a finite number, an infinity or a NaN. The values that
  \<^verbatim>\<open>json.loads\<close> produces, and the values of a \<^verbatim>\<open>dict[str, Any]\<close>,
  are \<open>pyval\<close>s. A dictionary with string keys is an association list in insertion
  order with distinct keys; \<^const>\<open>map_of\<close> is the lookup and \<open>dict_set\<close> the
  item assignment.
\<close>

datatype pyfloat = Fin rat | PosInf | NegInf | NaN

datatype pyval =
  PNone | PBool bool | PInt int | PFloat pyfloat | PStr string
  | PList "pyval list" | PDict "(string \<times> pyval) list"

fun dict_set :: "(string \<times> pyval) list \<Rightarrow> string \<Rightarrow> pyval \<Rightarrow> (string \<times> pyval) list" where
  "dict_set [] k v = [(k, v)]"
| "dict_set ((k', v') # d) k v =
     (if k' = k then (k, v) # d else (k', v') # dict_set d k v)"

subsection \<open>CmdOutputMetadata\<close>

record CmdOutputMetadata =
  exit_code :: int
  pid :: int
  username :: "string option"
  hostname :: "string option"
  working_dir :: "string option"
  py_interpreter_path :: "string option"
  prefix :: string
  suffix :: string

text \<open>\<^verbatim>\<open>CmdOutputMetadata()\<close>: every field at its declared default.\<close>

definition default_metadata :: CmdOutputMetadata where
  "default_metadata =
     \<lparr>exit_code = - 1, pid = - 1, username = None, hostname = None, working_dir = None,
      py_interpreter_path = None, prefix = [], suffix = []\<rparr>"

text \<open>
  \<^verbatim>\<open>CmdOutputMetadata(**d)\<close> validates each field with pydantic. An absent key
  takes the default and an unknown key is ignored. An \<^verbatim>\<open>int\<close> field accepts an
  integer as it is; what pydantic does with any other value for an \<^verbatim>\<open>int\<close> field
  (its lax-mode coercion, which is not part of this repository) is the parameter
  \<open>lax\<close>: \<open>lax v = Some i\<close> when \<open>v\<close> is coerced to \<open>i\<close>, \<open>None\<close> when it is
  rejected. A \<^verbatim>\<open>str | None\<close> field accepts a string or \<^verbatim>\<open>None\<close>, a
  \<^verbatim>\<open>str\<close> field a string. Any rejected field raises \<^verbatim>\<open>ValidationError\<close>.
\<close>

definition validate_int :: "(pyval \<Rightarrow> int option) \<Rightarrow> pyval option \<Rightarrow> int option" where
  "validate_int lax entry =
     (case entry of
        None \<Rightarrow> Some (- 1)
      | Some (PInt i) \<Rightarrow> Some i
      | Some v \<Rightarrow> lax v)"

definition validate_opt_str :: "pyval option \<Rightarrow> string option option" where
  "validate_opt_str entry =
     (case entry of
        None \<Rightarrow> Some None
      | Some PNone \<Rightarrow> Some None
      | Some (PStr s) \<Rightarrow> Some (Some s)
      | Some _ \<Rightarrow> None)"

definition validate_str :: "pyval option \<Rightarrow> string option" where
  "validate_str entry =
     (case entry of
        None \<Rightarrow> Some []
      | Some (PStr s) \<Rightarrow> Some s
      | Some _ \<Rightarrow> None)"

definition metadata_of_dict ::
  "(pyval \<Rightarrow> int option) \<Rightarrow> (string \<times> pyval) list \<Rightarrow> py_error + CmdOutputMetadata" where
  "metadata_of_dict lax d =
     (case (validate_int lax (map_of d ''exit_code''), validate_int lax (map_of d ''pid''),
            validate_opt_str (map_of d ''username''), validate_opt_str (map_of d ''hostname''),
            validate_opt_str (map_of d ''working_dir''),
            validate_opt_str (map_of d ''py_interpreter_path''),
            validate_str (map_of d ''prefix''), validate_str (map_of d ''suffix'')) of
        (Some e, Some p, Some u, Some h, Some w, Some y, Some pre, Some suf) \<Rightarrow>
          Inr \<lparr>exit_code = e, pid = p, username = u, hostname = h, working_dir = w,
               py_interpreter_path = y, prefix = pre, suffix = suf\<rparr>
      | _ \<Rightarrow> Inl ValidationError)"

text \<open>\<^verbatim>\<open>model_dump()\<close>: the fields as a dictionary, in declaration order.\<close>

definition dump_opt_str :: "string option \<Rightarrow> pyval" where
  "dump_opt_str x = (case x of None \<Rightarrow> PNone | Some s \<Rightarrow> PStr s)"

definition model_dump :: "CmdOutputMetadata \<Rightarrow> (string \<times> pyval) list" where
  "model_dump m =
     [(''exit_code'', PInt (exit_code m)), (''pid'', PInt (pid m)),
      (''username'', dump_opt_str (username m)), (''hostname'', dump_opt_str (hostname m)),
      (''working_dir'', dump_opt_str (working_dir m)),
      (''py_interpreter_path'', dump_opt_str (py_interpreter_path m)),
      (''prefix'', PStr (prefix m)), (''suffix'', PStr (suffix m))]"

text \<open>
  The \<^verbatim>\<open>metadata\<close> argument of both constructors is a dictionary, a
  \<^verbatim>\<open>CmdOutputMetadata\<close> or \<^verbatim>\<open>None\<close>. A dictionary is validated; otherwise
  \<^verbatim>\<open>metadata or CmdOutputMetadata()\<close> keeps the object (a model instance is truthy)
  or builds the default one.
\<close>

datatype metadata_arg =
  MetaDict "(string \<times> pyval) list" | MetaObj CmdOutputMetadata | MetaNone

definition init_metadata ::
  "(pyval \<Rightarrow> int option) \<Rightarrow> metadata_arg \<Rightarrow> py_error + CmdOutputMetadata" where
  "init_metadata lax metadata =
     (case metadata of
        MetaDict d \<Rightarrow> metadata_of_dict lax d
      | MetaObj m \<Rightarrow> Inr m
      | MetaNone \<Rightarrow> Inr default_metadata)"

text \<open>
  The choice of \<open>lax\<close> that coerces nothing (pydantic's strict mode), for concrete
  evaluations.
\<close>

definition strict_int :: "pyval \<Rightarrow> int option" where
  "strict_int v = None"

subsection \<open>Text helpers\<close>

text \<open>
  \<^verbatim>\<open>str.isspace\<close> on one character (the white space below code point 256),
  \<^verbatim>\<open>str.strip()\<close> and \<^verbatim>\<open>s.startswith(p)\<close>.
\<close>

definition isspace :: "char \<Rightarrow> bool" where
  "isspace c =
     (let n = (of_char c :: nat)
      in (9 \<le> n \<and> n \<le> 13) \<or> (28 \<le> n \<and> n \<le> 32) \<or> n = 133 \<or> n = 160)"

definition strip :: "string \<Rightarrow> string" where
  "strip s = rev (dropWhile isspace (rev (dropWhile isspace s)))"

fun startswith :: "string \<Rightarrow> string \<Rightarrow> bool" where
  "startswith s [] = True"
| "startswith [] (p # ps) = False"
| "startswith (c # cs) (p # ps) = (c = p \<and> startswith cs ps)"

subsection \<open>The metadata blocks of the prompt\<close>

definition CMD_OUTPUT_PS1_BEGIN :: string where
  "CMD_OUTPUT_PS1_BEGIN = CHR 0x0A # ''###PS1JSON###'' @ [CHR 0x0A]"

definition CMD_OUTPUT_PS1_END :: string where
  "CMD_OUTPUT_PS1_END = CHR 0x0A # ''###PS1END###''"

text \<open>
  \<^verbatim>\<open>CMD_OUTPUT_METADATA_PS1_REGEX\<close> is the pattern \<^verbatim>\<open>^B(.*?)E\<close> with the
  flags \<^verbatim>\<open>DOTALL\<close> and \<^verbatim>\<open>MULTILINE\<close>, where \<open>B\<close> and \<open>E\<close> are the
  stripped sentinels (they hold no character that is special in a pattern). A match
  object is its span and its group 1.

  \<open>lazy_until lit t\<close> is the lazy \<^verbatim>\<open>(.*?)\<close> followed by the literal: the shortest
  prefix of \<open>t\<close> after which \<open>lit\<close> stands; the dot matches every character.
  \<open>match_at s pos\<close> is the match of the pattern that starts at \<open>pos\<close>:
  \<^verbatim>\<open>^\<close> holds at the start of the text and after a newline.
  \<open>finditer\<close> scans from the left and resumes at the end of each match.
\<close>

record re_match =
  span_start :: nat
  span_end :: nat
  group1 :: string

fun lazy_until :: "string \<Rightarrow> string \<Rightarrow> string option" where
  "lazy_until lit [] = (if startswith [] lit then Some [] else None)"
| "lazy_until lit (c # cs) =
     (if startswith (c # cs) lit then Some []
      else map_option ((#) c) (lazy_until lit cs))"

definition match_at :: "string \<Rightarrow> nat \<Rightarrow> re_match option" where
  "match_at s pos =
     (let begin_lit = strip CMD_OUTPUT_PS1_BEGIN;
          end_lit = strip CMD_OUTPUT_PS1_END;
          t = drop pos s
      in if (pos = 0 \<or> s ! (pos - 1) = CHR 0x0A) \<and> startswith t begin_lit
         then (case lazy_until end_lit (drop (length begin_lit) t) of
                 None \<Rightarrow> None
               | Some g \<Rightarrow>
                   Some \<lparr>span_start = pos,
                         span_end = pos + length begin_lit + length g + length end_lit,
                         group1 = g\<rparr>)
         else None)"

function finditer_from :: "string \<Rightarrow> nat \<Rightarrow> re_match list" where
  "finditer_from s pos =
     (if length s < pos then []
      else (case match_at s pos of
              None \<Rightarrow> finditer_from s (pos + 1)
            | Some m \<Rightarrow>
                m # finditer_from s (span_end m)))"
  by pat_completeness auto
termination
  by (relation "measure (\<lambda>(s, pos). length s + 1 - pos)")
    (auto simp: match_at_def Let_def strip_def CMD_OUTPUT_PS1_BEGIN_def isspace_def
       split: if_splits option.splits)

definition finditer :: "string \<Rightarrow> re_match list" where
  "finditer s = finditer_from s 0"

text \<open>
  \<^verbatim>\<open>CmdOutputMetadata.matches_ps1_metadata\<close>. The decoder \<^verbatim>\<open>json.loads\<close> is
  the parameter \<open>loads\<close>: \<open>loads t = Inr v\<close> when \<open>t\<close> decodes to \<open>v\<close>, and
  \<open>loads t = Inl e\<close> when it raises \<open>e\<close>. Besides \<^verbatim>\<open>JSONDecodeError\<close> the
  decoder raises \<^verbatim>\<open>ValueError\<close> on an integer literal of more digits than the
  interpreter converts (4300 by default) and \<^verbatim>\<open>RecursionError\<close> on nesting beyond
  the recursion limit. The loop over the matches appends the ones whose stripped group
  decodes and goes on after a \<^verbatim>\<open>JSONDecodeError\<close>, the one class that the
  \<^verbatim>\<open>except\<close> clause names; any other exception leaves the function.
\<close>

fun collect_valid ::
  "(string \<Rightarrow> py_error + pyval) \<Rightarrow> re_match list \<Rightarrow> re_match list \<Rightarrow>
   py_error + re_match list" where
  "collect_valid loads [] matches = Inr matches"
| "collect_valid loads (m # ms) matches =
     (case loads (strip (group1 m)) of
        Inr v \<Rightarrow> collect_valid loads ms (matches @ [m])
      | Inl e \<Rightarrow>
          if e = JSONDecodeError then collect_valid loads ms matches else Inl e)"

definition matches_ps1_metadata ::
  "(string \<Rightarrow> py_error + pyval) \<Rightarrow> string \<Rightarrow> py_error + re_match list" where
  "matches_ps1_metadata loads string = collect_valid loads (finditer string) []"

subsection \<open>The built-ins float and int\<close>

text \<open>
  \<^verbatim>\<open>float(s)\<close> on a string: the white space that \<^verbatim>\<open>float\<close> strips, the rule
  that an underscore stands between two digits only, an optional sign, then
  \<^verbatim>\<open>inf\<close>, \<^verbatim>\<open>infinity\<close> or \<^verbatim>\<open>nan\<close> in any case, or a decimal number with
  an optional fraction and exponent. The number read is rounded to the nearest IEEE 754
  double, ties to even, with gradual underflow, and to an infinity from
  \<open>2 ^ 1024 - 2 ^ 970\<close> on. \<^verbatim>\<open>int(f)\<close> on a float truncates towards zero and raises
  \<^verbatim>\<open>OverflowError\<close> on an infinity and \<^verbatim>\<open>ValueError\<close> on a NaN.
\<close>

definition float_isspace :: "char \<Rightarrow> bool" where
  "float_isspace c =
     (let n = (of_char c :: nat) in (9 \<le> n \<and> n \<le> 13) \<or> n = 32 \<or> n = 133 \<or> n = 160)"

definition isdigit :: "char \<Rightarrow> bool" where
  "isdigit c = (let n = (of_char c :: nat) in 48 \<le> n \<and> n \<le> 57)"

definition digit_value :: "char \<Rightarrow> nat" where
  "digit_value c = of_char c - 48"

fun underscores_ok :: "char \<Rightarrow> string \<Rightarrow> bool" where
  "underscores_ok prev [] = (prev \<noteq> CHR ''_'')"
| "underscores_ok prev (c # cs) =
     (if c = CHR ''_'' then isdigit prev \<and> underscores_ok c cs
      else (isdigit c \<or> prev \<noteq> CHR ''_'') \<and> underscores_ok c cs)"

definition lower :: "char \<Rightarrow> char" where
  "lower c =
     (let n = (of_char c :: nat) in if 65 \<le> n \<and> n \<le> 90 then char_of (n + 32) else c)"

fun decimal_value :: "nat \<Rightarrow> string \<Rightarrow> nat" where
  "decimal_value acc [] = acc"
| "decimal_value acc (c # cs) = decimal_value (10 * acc + digit_value c) cs"

definition split_sign :: "string \<Rightarrow> bool \<times> string" where
  "split_sign u =
     (case u of
        [] \<Rightarrow> (False, [])
      | c # cs \<Rightarrow>
          if c = CHR ''-'' then (True, cs) else if c = CHR ''+'' then (False, cs)
          else (False, u))"

definition parse_decimal :: "string \<Rightarrow> rat option" where
  "parse_decimal u =
     (let ip = takeWhile isdigit u; r1 = dropWhile isdigit u;
          dot = (r1 \<noteq> [] \<and> hd r1 = CHR ''.'');
          fp = (if dot then takeWhile isdigit (tl r1) else []);
          r2 = (if dot then dropWhile isdigit (tl r1) else r1)
      in if ip = [] \<and> fp = [] then None
         else if r2 = [] then
           Some (of_nat (decimal_value 0 (ip @ fp)) * (10::rat) powi (- int (length fp)))
         else if hd r2 = CHR ''e'' \<or> hd r2 = CHR ''E'' then
           (let (neg, r3) = split_sign (tl r2);
                ed = takeWhile isdigit r3
            in if ed = [] \<or> dropWhile isdigit r3 \<noteq> [] then None
               else Some (of_nat (decimal_value 0 (ip @ fp))
                          * (10::rat) powi ((if neg then - int (decimal_value 0 ed)
                                      else int (decimal_value 0 ed))
                                     - int (length fp))))
         else None)"

definition round_half_even :: "rat \<Rightarrow> int" where
  "round_half_even x =
     (let f = \<lfloor>x\<rfloor>; d = x - of_int f
      in if d < 1 / 2 then f else if 1 / 2 < d then f + 1
         else if even f then f else f + 1)"

definition floor_log2 :: "rat \<Rightarrow> int" where
  "floor_log2 a =
     (let (n, d) = quotient_of a; e = bitlen n - bitlen d
      in if (2::rat) powi e \<le> a then e else e - 1)"

definition round_double :: "rat \<Rightarrow> pyfloat" where
  "round_double q =
     (if q = 0 then Fin 0
      else let a = \<bar>q\<bar>;
               e = max (floor_log2 a) (- 1022);
               quantum = (2::rat) powi (e - 52);
               v = of_int (round_half_even (a / quantum)) * quantum
           in if (2::rat) powi 1024 \<le> v then (if 0 < q then PosInf else NegInf)
              else Fin (if 0 < q then v else - v))"

definition py_float :: "string \<Rightarrow> py_error + pyfloat" where
  "py_float s =
     (let t = rev (dropWhile float_isspace (rev (dropWhile float_isspace s)))
      in if \<not> underscores_ok (CHR 0x00) t then Inl ValueError
         else let (neg, u) = split_sign (filter (\<lambda>c. c \<noteq> CHR ''_'') t);
                  w = map lower u
              in if w = ''inf'' \<or> w = ''infinity'' then Inr (if neg then NegInf else PosInf)
                 else if w = ''nan'' then Inr NaN
                 else (case parse_decimal u of
                         None \<Rightarrow> Inl ValueError
                       | Some q \<Rightarrow> Inr (round_double (if neg then - q else q))))"

definition py_int :: "pyfloat \<Rightarrow> py_error + int" where
  "py_int f =
     (case f of
        Fin q \<Rightarrow> Inr (if 0 \<le> q then \<lfloor>q\<rfloor> else \<lceil>q\<rceil>)
      | PosInf \<Rightarrow> Inl OverflowError
      | NegInf \<Rightarrow> Inl OverflowError
      | NaN \<Rightarrow> Inl ValueError)"

text \<open>\<^verbatim>\<open>str(i)\<close> for an integer: its decimal digits, after a minus sign below zero.\<close>

fun digits_of_nat :: "nat \<Rightarrow> string" where
  "digits_of_nat n =
     (if n < 10 then [char_of (48 + n)]
      else digits_of_nat (n div 10) @ [char_of (48 + n mod 10)])"

definition str_int :: "int \<Rightarrow> string" where
  "str_int i = (if i < 0 then CHR ''-'' # digits_of_nat (nat (- i)) else digits_of_nat (nat i))"

text \<open>
  \<^verbatim>\<open>float(str(v))\<close> for a decoded JSON value: \<^verbatim>\<open>str\<close> of a string is the
  string, of an integer its digits, of \<^verbatim>\<open>None\<close>, \<^verbatim>\<open>True\<close> and
  \<^verbatim>\<open>False\<close> their names; \<^verbatim>\<open>str\<close> of a float is a text that \<^verbatim>\<open>float\<close>
  reads back as the same float; \<^verbatim>\<open>str\<close> of a list or a dictionary starts with a
  bracket, which \<^verbatim>\<open>float\<close> rejects. \<open>coerce\<close> is
  \<^verbatim>\<open>int(float(str(v)))\<close>.
\<close>

fun float_of_str :: "pyval \<Rightarrow> py_error + pyfloat" where
  "float_of_str (PStr s) = py_float s"
| "float_of_str (PInt i) = py_float (str_int i)"
| "float_of_str (PBool b) = py_float (if b then ''True'' else ''False'')"
| "float_of_str PNone = py_float ''None''"
| "float_of_str (PFloat f) = Inr f"
| "float_of_str (PList xs) = Inl ValueError"
| "float_of_str (PDict d) = Inl ValueError"

definition coerce :: "pyval \<Rightarrow> py_error + int" where
  "coerce v = (case float_of_str v of Inl e \<Rightarrow> Inl e | Inr f \<Rightarrow> py_int f)"

text \<open>
  \<^verbatim>\<open>CmdOutputMetadata.from_ps1_match\<close>. \<open>coerce_field\<close> is one of the two
  \<^verbatim>\<open>if key in metadata: try: ... except (ValueError, TypeError): ...\<close> blocks: it
  reads the value from \<open>metadata\<close> and writes into the copy \<open>processed\<close>; an
  exception of another class leaves the function, as does every exception of
  \<^verbatim>\<open>json.loads\<close>, here called on the group as matched. A decoded value that is not a
  dictionary has no \<^verbatim>\<open>copy\<close> method (\<^verbatim>\<open>AttributeError\<close>), or, for a list,
  cannot be indexed by a key or passed as keyword arguments (\<^verbatim>\<open>TypeError\<close>).
\<close>

definition coerce_field ::
  "(string \<times> pyval) list \<Rightarrow> (string \<times> pyval) list \<Rightarrow> string \<Rightarrow>
   py_error + (string \<times> pyval) list" where
  "coerce_field metadata processed key =
     (case map_of metadata key of
        None \<Rightarrow> Inr processed
      | Some v \<Rightarrow>
          (case coerce v of
             Inr i \<Rightarrow> Inr (dict_set processed key (PInt i))
           | Inl e \<Rightarrow>
               if e = ValueError \<or> e = TypeError
               then Inr (dict_set processed key (PInt (- 1)))
               else Inl e))"

definition from_ps1_match ::
  "(string \<Rightarrow> py_error + pyval) \<Rightarrow> (pyval \<Rightarrow> int option) \<Rightarrow> re_match \<Rightarrow>
   py_error + CmdOutputMetadata" where
  "from_ps1_match loads lax m =
     (case loads (group1 m) of
        Inl e \<Rightarrow> Inl e
      | Inr (PDict metadata) \<Rightarrow>
          (case coerce_field metadata metadata ''pid'' of
             Inl e \<Rightarrow> Inl e
           | Inr processed \<Rightarrow>
               (case coerce_field metadata processed ''exit_code'' of
                  Inl e \<Rightarrow> Inl e
                | Inr processed' \<Rightarrow> metadata_of_dict lax processed'))
      | Inr (PList xs) \<Rightarrow> Inl TypeError
      | Inr v \<Rightarrow> Inl AttributeError)"

text \<open>
  What C4 promises for a numeric field of a decoded dictionary \<open>d\<close>: the value
  coerced by \<^verbatim>\<open>int(float(str(v)))\<close>, and \<open>- 1\<close> when the key is absent or the
  coercion fails.
\<close>

definition coerced_or_default :: "(string \<times> pyval) list \<Rightarrow> string \<Rightarrow> int" where
  "coerced_or_default d key =
     (case map_of d key of
        None \<Rightarrow> - 1
      | Some v \<Rightarrow> (case coerce v of Inr i \<Rightarrow> i | Inl e \<Rightarrow> - 1))"

subsection \<open>Python slices\<close>

text \<open>
  \<^verbatim>\<open>xs[:k]\<close> and \<^verbatim>\<open>xs[k:]\<close> for any integer \<open>k\<close>: a negative bound counts
  from the end, and every bound is clamped to the range of the list.
\<close>

definition slice_to :: "'a list \<Rightarrow> int \<Rightarrow> 'a list" where
  "slice_to xs k =
     (if 0 \<le> k then take (nat k) xs else take (nat (int (length xs) + k)) xs)"

definition slice_from :: "'a list \<Rightarrow> int \<Rightarrow> 'a list" where
  "slice_from xs k =
     (if 0 \<le> k then drop (nat k) xs else drop (nat (int (length xs) + k)) xs)"

subsection \<open>The output truncator\<close>


definition truncation_marker :: string where
  "truncation_marker =
     CHR 0x0A # ''[... Observation truncated due to length ...]'' @ [CHR 0x0A]"

text \<open>
  \<^verbatim>\<open>CmdOutputObservation._maybe_truncate(content, max_size)\<close>; \<open>div\<close> on
  \<^typ>\<open>int\<close> rounds down, as Python's \<^verbatim>\<open>//\<close> does.
\<close>

definition maybe_truncate :: "string \<Rightarrow> int \<Rightarrow> string" where
  "maybe_truncate content max_size =
     (if int (length content) \<le> max_size then content
      else let half = max_size div 2
           in slice_to content half @ truncation_marker @ slice_from content (- half))"

subsection \<open>Observation of one command\<close>

text \<open>
  The base class \<^verbatim>\<open>Observation\<close> holds the content; \<^verbatim>\<open>CmdOutputObservation\<close>
  extends it. The legacy keyword arguments are a map from their names to their integer
  values; a value is stored into the metadata as it is.
\<close>

record Observation =
  content :: string

record CmdOutputObservation = Observation +
  command :: string
  observation :: string
  metadata :: CmdOutputMetadata
  hidden :: bool


definition CmdOutputObservation_exit_code :: "CmdOutputObservation \<Rightarrow> int" where
  "CmdOutputObservation_exit_code obs = exit_code (CmdOutputObservation.metadata obs)"

definition CmdOutputObservation_error :: "CmdOutputObservation \<Rightarrow> bool" where
  "CmdOutputObservation_error obs = (CmdOutputObservation_exit_code obs \<noteq> 0)"

definition CmdOutputObservation_success :: "CmdOutputObservation \<Rightarrow> bool" where
  "CmdOutputObservation_success obs = (\<not> CmdOutputObservation_error obs)"

subsection \<open>Result of one command of a batch\<close>

record ParallelCmdResult =
  command :: string
  content :: string
  metadata :: CmdOutputMetadata

definition ParallelCmdResult_init ::
  "(pyval \<Rightarrow> int option) \<Rightarrow> string \<Rightarrow> string \<Rightarrow> metadata_arg \<Rightarrow> (string \<rightharpoonup> int) \<Rightarrow>
   py_error + ParallelCmdResult" where
  "ParallelCmdResult_init lax command0 content0 metadata0 kwargs =
     (case init_metadata lax metadata0 of
        Inl e \<Rightarrow> Inl e
      | Inr m0 \<Rightarrow>
          let m1 = (case kwargs ''exit_code'' of
                      Some v \<Rightarrow> m0\<lparr>exit_code := v\<rparr> | None \<Rightarrow> m0);
              m2 = (case kwargs ''pid'' of
                      Some v \<Rightarrow> m1\<lparr>pid := v\<rparr> | None \<Rightarrow> m1)
          in Inr \<lparr>ParallelCmdResult.command = command0, ParallelCmdResult.content = content0,
                  ParallelCmdResult.metadata = m2\<rparr>)"

definition ParallelCmdResult_exit_code :: "ParallelCmdResult \<Rightarrow> int" where
  "ParallelCmdResult_exit_code r = exit_code (ParallelCmdResult.metadata r)"

definition ParallelCmdResult_error :: "ParallelCmdResult \<Rightarrow> bool" where
  "ParallelCmdResult_error r = (ParallelCmdResult_exit_code r \<noteq> 0)"

definition ParallelCmdResult_success :: "ParallelCmdResult \<Rightarrow> bool" where
  "ParallelCmdResult_success r = (\<not> ParallelCmdResult_error r)"

definition to_dict :: "ParallelCmdResult \<Rightarrow> (string \<times> pyval) list" where
  "to_dict r =
     [(''command'', PStr (ParallelCmdResult.command r)),
      (''content'', PStr (ParallelCmdResult.content r)),
      (''metadata'', PDict (model_dump (ParallelCmdResult.metadata r)))]"

text \<open>
  \<^verbatim>\<open>from_dict(data)\<close>: \<^verbatim>\<open>data['command']\<close> and \<^verbatim>\<open>data['content']\<close> raise
  \<^verbatim>\<open>KeyError\<close> on a missing key, \<^verbatim>\<open>data.get('metadata')\<close> is \<^verbatim>\<open>None\<close>
  on one. The constructor declares \<^verbatim>\<open>command: str\<close>, \<^verbatim>\<open>content: str\<close> and
  \<^verbatim>\<open>metadata: dict | CmdOutputMetadata | None\<close>. Python does not check these
  annotations; the model takes them as the contract of the mapping and answers
  \<open>Inl TypeError\<close> for a mapping that binds a key to a value of another type.
\<close>

definition from_dict ::
  "(pyval \<Rightarrow> int option) \<Rightarrow> (string \<times> pyval) list \<Rightarrow> py_error + ParallelCmdResult" where
  "from_dict lax data =
     (case map_of data ''command'' of
        None \<Rightarrow> Inl KeyError
      | Some c \<Rightarrow>
          (case map_of data ''content'' of
             None \<Rightarrow> Inl KeyError
           | Some t \<Rightarrow>
               (case (c, t, map_of data ''metadata'') of
                  (PStr c', PStr t', None) \<Rightarrow>
                    ParallelCmdResult_init lax c' t' MetaNone Map.empty
                | (PStr c', PStr t', Some PNone) \<Rightarrow>
                    ParallelCmdResult_init lax c' t' MetaNone Map.empty
                | (PStr c', PStr t', Some (PDict d)) \<Rightarrow>
                    ParallelCmdResult_init lax c' t' (MetaDict d) Map.empty
                | _ \<Rightarrow> Inl TypeError)))"

subsection \<open>Observation of a batch\<close>


record ParallelCmdOutputObservation = Observation +
  results :: "ParallelCmdResult list"
  observation :: string
  hidden :: bool



text \<open>
  The built-ins \<^verbatim>\<open>any\<close> and \<^verbatim>\<open>all\<close> over a generator
  \<^verbatim>\<open>(p(r) for r in xs)\<close>: they stop at the first element that decides the answer.
\<close>

fun py_any :: "('a \<Rightarrow> bool) \<Rightarrow> 'a list \<Rightarrow> bool" where
  "py_any p [] = False"
| "py_any p (x # xs) = (if p x then True else py_any p xs)"

fun py_all :: "('a \<Rightarrow> bool) \<Rightarrow> 'a list \<Rightarrow> bool" where
  "py_all p [] = True"
| "py_all p (x # xs) = (if p x then py_all p xs else False)"

text \<open>
  The list comprehension \<^verbatim>\<open>[r for r in xs if p(r)]\<close>: a loop that appends the
  elements that pass the test to a list that starts empty.
\<close>

fun comprehension :: "('a \<Rightarrow> bool) \<Rightarrow> 'a list \<Rightarrow> 'a list \<Rightarrow> 'a list" where
  "comprehension p [] acc = acc"
| "comprehension p (x # xs) acc = comprehension p xs (if p x then acc @ [x] else acc)"

definition ParallelCmdOutputObservation_error :: "ParallelCmdOutputObservation \<Rightarrow> bool" where
  "ParallelCmdOutputObservation_error obs = py_any ParallelCmdResult_error (results obs)"

definition ParallelCmdOutputObservation_success :: "ParallelCmdOutputObservation \<Rightarrow> bool" where
  "ParallelCmdOutputObservation_success obs = py_all ParallelCmdResult_success (results obs)"

definition get_results_by_exit_code ::
  "ParallelCmdOutputObservation \<Rightarrow> int \<Rightarrow> ParallelCmdResult list" where
  "get_results_by_exit_code obs code =
     comprehension (\<lambda>r. ParallelCmdResult_exit_code r = code) (results obs) []"

definition get_successful_results :: "ParallelCmdOutputObservation \<Rightarrow> ParallelCmdResult list" where
  "get_successful_results obs = get_results_by_exit_code obs 0"

definition get_failed_results :: "ParallelCmdOutputObservation \<Rightarrow> ParallelCmdResult list" where
  "get_failed_results obs =
     comprehension (\<lambda>r. ParallelCmdResult_exit_code r \<noteq> 0) (results obs) []"

section \<open>Properties\<close>


text \<open>
  C8. A content whose length is at most the size limit is returned unchanged.
\<close>

theorem maybe_truncate_identity:
  "int (length body) \<le> max_size \<Longrightarrow> maybe_truncate body max_size = body"
  by (simp add: maybe_truncate_def)

theorem maybe_truncate_identity_witness:
  "int (length ''abc'') \<le> 3 \<and> maybe_truncate ''abc'' 3 = ''abc''"
  using maybe_truncate_identity [of "''abc''" 3] by simp

text \<open>
  C2 (amended). For a size limit of at least 2 and a content longer than it, the result is
  the first \<open>max_size div 2\<close> characters, the marker line and the last
  \<open>max_size div 2\<close> characters; its length is \<open>2 * (max_size div 2)\<close> plus the
  length of the marker, which is \<open>max_size\<close> plus the length of the marker when
  \<open>max_size\<close> is even.
\<close>

theorem maybe_truncate_long:
  assumes "2 \<le> max_size" and "max_size < int (length body)"
  shows "maybe_truncate body max_size =
           take (nat (max_size div 2)) body @ truncation_marker @
           drop (length body - nat (max_size div 2)) body
         \<and> int (length (maybe_truncate body max_size)) =
             2 * (max_size div 2) + int (length truncation_marker)
         \<and> (even max_size \<longrightarrow>
             int (length (maybe_truncate body max_size)) =
               max_size + int (length truncation_marker))"
proof -
  let ?h = "max_size div 2"
  have h: "1 \<le> ?h" "?h \<le> max_size" using assms(1) by simp_all
  have hl: "nat ?h \<le> length body" using assms h by linarith
  have eq: "maybe_truncate body max_size =
           take (nat ?h) body @ truncation_marker @ drop (length body - nat ?h) body"
    using assms h hl
    by (simp add: maybe_truncate_def slice_to_def slice_from_def Let_def nat_diff_distrib')
  have len: "int (length (maybe_truncate body max_size)) =
             2 * ?h + int (length truncation_marker)"
    unfolding eq using h hl by simp
  have ev: "even max_size \<Longrightarrow> 2 * ?h = max_size" by simp
  from eq len ev show ?thesis by presburger
qed

theorem maybe_truncate_long_witness:
  "(2::int) \<le> 4 \<and> 4 < int (length ''abcdef'')
   \<and> maybe_truncate ''abcdef'' 4 = ''ab'' @ truncation_marker @ ''ef''
   \<and> int (length (maybe_truncate ''abcdef'' 4)) = 4 + int (length truncation_marker)"
  using maybe_truncate_long [of 4 "''abcdef''"] by simp

text \<open>
  C2 as stated fails for an odd size limit: with limit 3 the halves have one character
  each, and the length is 2, not 3, plus the length of the marker.
\<close>

theorem maybe_truncate_odd_counterexample:
  "3 < int (length ''abcd'')
   \<and> maybe_truncate ''abcd'' 3 = ''a'' @ truncation_marker @ ''d''
   \<and> int (length (maybe_truncate ''abcd'' 3)) \<noteq> 3 + int (length truncation_marker)"
  by (simp add: maybe_truncate_def slice_to_def slice_from_def)






lemma py_any_iff: "py_any p xs \<longleftrightarrow> (\<exists>x\<in>set xs. p x)"
  by (induction xs) auto

lemma py_all_iff: "py_all p xs \<longleftrightarrow> (\<forall>x\<in>set xs. p x)"
  by (induction xs) auto

lemma comprehension_filter: "comprehension p xs acc = acc @ filter p xs"
  by (induction xs arbitrary: acc) auto

lemma metadata_of_dict_model_dump: "metadata_of_dict lax (model_dump m) = Inr (m::CmdOutputMetadata)"
  by (cases m) (simp add: metadata_of_dict_def model_dump_def validate_int_def validate_opt_str_def
      validate_str_def dump_opt_str_def split: option.splits)

text \<open>
  C5. A batch is in error exactly when some member has a nonzero exit code and succeeds
  exactly when every member has exit code 0; a single result, of either kind, is in error
  exactly when its exit code is nonzero and succeeds exactly when it is not in error.
\<close>

theorem batch_error_success:
  "(ParallelCmdOutputObservation_error obs \<longleftrightarrow>
      (\<exists>r\<in>set (results obs). ParallelCmdResult_exit_code r \<noteq> 0))
   \<and> (ParallelCmdOutputObservation_success obs \<longleftrightarrow>
      (\<forall>r\<in>set (results obs). ParallelCmdResult_exit_code r = 0))
   \<and> (ParallelCmdResult_error r \<longleftrightarrow> ParallelCmdResult_exit_code r \<noteq> 0)
   \<and> (ParallelCmdResult_success r \<longleftrightarrow> \<not> ParallelCmdResult_error r)
   \<and> (CmdOutputObservation_error c \<longleftrightarrow> CmdOutputObservation_exit_code c \<noteq> 0)
   \<and> (CmdOutputObservation_success c \<longleftrightarrow> \<not> CmdOutputObservation_error c)"
  by (simp add: ParallelCmdOutputObservation_error_def ParallelCmdOutputObservation_success_def
      py_any_iff py_all_iff ParallelCmdResult_error_def ParallelCmdResult_success_def
      CmdOutputObservation_error_def CmdOutputObservation_success_def)

theorem batch_error_success_witness:
  "ParallelCmdOutputObservation_error
     \<lparr>Observation.content = [],
      results = [\<lparr>ParallelCmdResult.command = ''exit 0'', ParallelCmdResult.content = [],
                  ParallelCmdResult.metadata = default_metadata\<lparr>exit_code := 0\<rparr>\<rparr>,
                 \<lparr>ParallelCmdResult.command = ''exit 1'', ParallelCmdResult.content = [],
                  ParallelCmdResult.metadata = default_metadata\<lparr>exit_code := 1\<rparr>\<rparr>],
      observation = ''run_parallel'', hidden = False\<rparr>
   \<and> \<not> ParallelCmdOutputObservation_success
     \<lparr>Observation.content = [],
      results = [\<lparr>ParallelCmdResult.command = ''exit 0'', ParallelCmdResult.content = [],
                  ParallelCmdResult.metadata = default_metadata\<lparr>exit_code := 0\<rparr>\<rparr>,
                 \<lparr>ParallelCmdResult.command = ''exit 1'', ParallelCmdResult.content = [],
                  ParallelCmdResult.metadata = default_metadata\<lparr>exit_code := 1\<rparr>\<rparr>],
      observation = ''run_parallel'', hidden = False\<rparr>"
  using batch_error_success [of "\<lparr>Observation.content = [],
      results = [\<lparr>ParallelCmdResult.command = ''exit 0'', ParallelCmdResult.content = [],
                  ParallelCmdResult.metadata = default_metadata\<lparr>exit_code := 0\<rparr>\<rparr>,
                 \<lparr>ParallelCmdResult.command = ''exit 1'', ParallelCmdResult.content = [],
                  ParallelCmdResult.metadata = default_metadata\<lparr>exit_code := 1\<rparr>\<rparr>],
      observation = ''run_parallel'', hidden = False\<rparr>"]
  by (simp add: ParallelCmdResult_exit_code_def default_metadata_def)

text \<open>
  C6. \<^verbatim>\<open>from_dict(to_dict(r))\<close> is a result equal to \<open>r\<close>: the same command, the
  same content and the same value in every metadata field.
\<close>

theorem from_dict_to_dict: "from_dict lax (to_dict r) = Inr (r::ParallelCmdResult)"
  by (cases r) (simp add: from_dict_def to_dict_def ParallelCmdResult_init_def init_metadata_def
      metadata_of_dict_model_dump)

text \<open>
  C9. \<^verbatim>\<open>get_results_by_exit_code(code)\<close> is the list of the members whose exit code is
  \<open>code\<close>, in the order of the results; \<^verbatim>\<open>get_successful_results()\<close> is
  \<^verbatim>\<open>get_results_by_exit_code(0)\<close>; \<^verbatim>\<open>get_failed_results()\<close> is the list of the
  members whose exit code is not 0, in the order of the results.
\<close>

theorem filters_by_exit_code:
  "get_results_by_exit_code obs code =
     filter (\<lambda>r. ParallelCmdResult_exit_code r = code) (results obs)
   \<and> get_successful_results obs = get_results_by_exit_code obs 0
   \<and> get_failed_results obs = filter (\<lambda>r. ParallelCmdResult_exit_code r \<noteq> 0) (results obs)"
  by (simp add: get_results_by_exit_code_def get_successful_results_def get_failed_results_def
      comprehension_filter)


subsection \<open>The scan for metadata blocks\<close>

lemma strip_begin: "strip CMD_OUTPUT_PS1_BEGIN = ''###PS1JSON###''"
  by (simp add: strip_def CMD_OUTPUT_PS1_BEGIN_def isspace_def)

lemma strip_end: "strip CMD_OUTPUT_PS1_END = ''###PS1END###''"
  by (simp add: strip_def CMD_OUTPUT_PS1_END_def isspace_def)

declare finditer_from.simps [simp del]

lemma startswith_iff: "startswith s p \<longleftrightarrow> take (length p) s = p"
  by (induction s p rule: startswith.induct) auto

lemma take_eq_imp_le: "take (length p) xs = p \<Longrightarrow> length p \<le> length xs"
proof -
  assume "take (length p) xs = p"
  then have "length (take (length p) xs) = length p" by simp
  then show ?thesis by simp
qed

lemma lazy_until_Some:
  "lazy_until lit t = Some g \<Longrightarrow>
     take (length g + length lit) t = g @ lit
     \<and> length g + length lit \<le> length t
     \<and> (\<forall>k<length g. \<not> startswith (drop k t) lit)"
proof (induction t arbitrary: g)
  case Nil
  then show ?case by (cases lit) (auto split: if_splits)
next
  case (Cons c cs)
  show ?case
  proof (cases "startswith (c # cs) lit")
    case True
    with Cons.prems have "g = []" by simp
    with True show ?thesis
      using take_eq_imp_le[of lit "c # cs"] by (auto simp: startswith_iff)
  next
    case False
    with Cons.prems obtain g' where g': "lazy_until lit cs = Some g'" "g = c # g'"
      by auto
    from Cons.IH[OF g'(1)] have ih: "take (length g' + length lit) cs = g' @ lit"
      "length g' + length lit \<le> length cs" "\<forall>k<length g'. \<not> startswith (drop k cs) lit"
      by auto
    have "\<not> startswith (drop k (c # cs)) lit" if "k < length g" for k
    proof (cases k)
      case 0
      then show ?thesis using False by simp
    next
      case (Suc j)
      then show ?thesis using that ih(3) g'(2) by simp
    qed
    then show ?thesis using ih g'(2) by simp
  qed
qed

lemma match_at_Some:
  assumes "match_at s p = Some m"
  shows "span_start m = p"
    and "p = 0 \<or> s ! (p - 1) = CHR 0x0A"
    and "startswith (drop p s) (strip CMD_OUTPUT_PS1_BEGIN)"
    and "span_end m = p + length (strip CMD_OUTPUT_PS1_BEGIN) + length (group1 m)
           + length (strip CMD_OUTPUT_PS1_END)"
    and "lazy_until (strip CMD_OUTPUT_PS1_END)
           (drop (length (strip CMD_OUTPUT_PS1_BEGIN)) (drop p s)) = Some (group1 m)"
  using assms by (auto simp: match_at_def Let_def split: if_splits option.splits)

lemma match_at_region:
  assumes "match_at s p = Some m"
  shows "span_end m \<le> length s"
    and "take (span_end m - span_start m) (drop (span_start m) s) =
           strip CMD_OUTPUT_PS1_BEGIN @ group1 m @ strip CMD_OUTPUT_PS1_END"
    and "span_start m < span_end m"
proof -
  let ?b = "strip CMD_OUTPUT_PS1_BEGIN" and ?e = "strip CMD_OUTPUT_PS1_END"
  let ?g = "group1 m"
  note m = match_at_Some[OF assms]
  have b: "take (length ?b) (drop p s) = ?b" using m(3) by (simp add: startswith_iff)
  have lb: "length ?b = 13" by (simp add: strip_begin)
  have pl: "p + length ?b \<le> length s"
    using take_eq_imp_le[OF b] lb by simp
  from lazy_until_Some[OF m(5)]
  have g: "take (length ?g + length ?e) (drop (length ?b) (drop p s)) = ?g @ ?e"
    and gl: "length ?g + length ?e \<le> length (drop (length ?b) (drop p s))"
    by auto
  from gl pl show "span_end m \<le> length s" using m(4) by simp
  have "take (length ?b + (length ?g + length ?e)) (drop p s) =
          take (length ?b) (drop p s) @ take (length ?g + length ?e) (drop (length ?b) (drop p s))"
    by (simp add: take_add)
  with b g have "take (length ?b + (length ?g + length ?e)) (drop p s) = ?b @ ?g @ ?e" by simp
  moreover have "span_end m - span_start m = length ?b + (length ?g + length ?e)"
    using m(1,4) by simp
  ultimately show "take (span_end m - span_start m) (drop (span_start m) s) = ?b @ ?g @ ?e"
    using m(1) by simp
  show "span_start m < span_end m" using m(1,4) lb by simp
qed

lemma finditer_from_sound:
  "m \<in> set (finditer_from s pos) \<Longrightarrow> pos \<le> span_start m \<and> match_at s (span_start m) = Some m"
proof (induction s pos rule: finditer_from.induct)
  case (1 s pos)
  show ?case
  proof (cases "length s < pos")
    case True
    with "1.prems" show ?thesis by (simp add: finditer_from.simps)
  next
    case False
    show ?thesis
    proof (cases "match_at s pos")
      case None
      with False "1.prems" have "m \<in> set (finditer_from s (pos + 1))"
        by (simp add: finditer_from.simps[of s pos])
      from "1.IH"(1)[OF False None this] show ?thesis by simp
    next
      case (Some m')
      with False "1.prems" have "m = m' \<or> m \<in> set (finditer_from s (span_end m'))"
        by (simp add: finditer_from.simps[of s pos])
      then show ?thesis
      proof
        assume "m = m'"
        with Some match_at_Some(1)[OF Some] show ?thesis by simp
      next
        assume "m \<in> set (finditer_from s (span_end m'))"
        from "1.IH"(2)[OF False Some this] match_at_region(3)[OF Some] match_at_Some(1)[OF Some]
        show ?thesis by simp
      qed
    qed
  qed
qed

lemma finditer_from_sorted:
  "sorted_wrt (\<lambda>a b. span_end a \<le> span_start b) (finditer_from s pos)"
proof (induction s pos rule: finditer_from.induct)
  case (1 s pos)
  show ?case
  proof (cases "length s < pos")
    case True
    then show ?thesis by (simp add: finditer_from.simps)
  next
    case False
    show ?thesis
    proof (cases "match_at s pos")
      case None
      with False "1.IH"(1) show ?thesis by (simp add: finditer_from.simps[of s pos])
    next
      case (Some m')
      have "\<forall>b\<in>set (finditer_from s (span_end m')). span_end m' \<le> span_start b"
        using finditer_from_sound by blast
      with False Some "1.IH"(2) show ?thesis by (simp add: finditer_from.simps[of s pos])
    qed
  qed
qed

lemma finditer_from_complete:
  "pos \<le> p \<Longrightarrow> match_at s p = Some m \<Longrightarrow>
     m \<in> set (finditer_from s pos)
     \<or> (\<exists>m'\<in>set (finditer_from s pos). span_start m' < p \<and> p < span_end m')"
proof (induction s pos rule: finditer_from.induct)
  case (1 s pos)
  have pl: "p \<le> length s"
    using match_at_region(1,3)[OF "1.prems"(2)] match_at_Some(1)[OF "1.prems"(2)] by simp
  then have False: "\<not> length s < pos" using "1.prems"(1) by simp
  show ?case
  proof (cases "match_at s pos")
    case None
    with "1.prems" have "pos + 1 \<le> p" by (cases "p = pos") auto
    from "1.IH"(1)[OF False None this "1.prems"(2)] False None
    show ?thesis by (simp add: finditer_from.simps[of s pos])
  next
    case (Some m')
    note st = match_at_Some(1)[OF Some]
    consider "p = pos" | "pos < p" "p < span_end m'" | "span_end m' \<le> p"
      using "1.prems"(1) by linarith
    then show ?thesis
    proof cases
      case 1
      with Some "1.prems"(2) False show ?thesis by (simp add: finditer_from.simps[of s pos])
    next
      case 2
      with Some False st show ?thesis by (auto simp: finditer_from.simps[of s pos])
    next
      case 3
      from "1.IH"(2)[OF False Some 3 "1.prems"(2)] Some False
      show ?thesis by (auto simp: finditer_from.simps[of s pos])
    qed
  qed
qed

lemma collect_valid_returns:
  "\<forall>m\<in>set ms. \<forall>e. loads (strip (group1 m)) = Inl e \<longrightarrow> e = JSONDecodeError \<Longrightarrow>
   collect_valid loads ms acc =
     Inr (acc @ filter (\<lambda>m. \<not> isl (loads (strip (group1 m)))) ms)"
  by (induction ms arbitrary: acc) (auto split: sum.splits)

lemma collect_valid_subset:
  "collect_valid loads ms acc = Inr r \<Longrightarrow> set r \<subseteq> set acc \<union> set ms"
proof (induction ms arbitrary: acc)
  case Nil
  then show ?case by auto
next
  case (Cons m ms)
  show ?case
  proof (cases "loads (strip (group1 m))")
    case (Inl e)
    with Cons.prems have "collect_valid loads ms acc = Inr r"
      by (simp split: if_splits)
    from Cons.IH[OF this] show ?thesis by auto
  next
    case (Inr v)
    with Cons.prems have "collect_valid loads ms (acc @ [m]) = Inr r" by simp
    from Cons.IH[OF this] show ?thesis by auto
  qed
qed

lemma collect_valid_raises:
  "m \<in> set ms \<Longrightarrow> loads (strip (group1 m)) = Inl e \<Longrightarrow> e \<noteq> JSONDecodeError \<Longrightarrow>
   isl (collect_valid loads ms acc)"
  by (induction ms arbitrary: acc) (auto split: sum.splits)

lemma three_blocks_finditer:
  "finditer ''###PS1JSON###\<newline>{}\<newline>###PS1END###\<newline>###PS1JSON###\<newline>{oops\<newline>###PS1END###\<newline>###PS1JSON###\<newline>{}\<newline>###PS1END###'' =
     [\<lparr>span_start = 0, span_end = 29, group1 = ''\<newline>{}\<newline>''\<rparr>,
      \<lparr>span_start = 30, span_end = 62, group1 = ''\<newline>{oops\<newline>''\<rparr>,
      \<lparr>span_start = 63, span_end = 92, group1 = ''\<newline>{}\<newline>''\<rparr>]"
  by code_simp

lemma mid_line_finditer:
  "finditer ''echo ###PS1JSON###{}###PS1END###\<newline>###PS1JSON###{}###PS1END###'' =
     [\<lparr>span_start = 33, span_end = 60, group1 = ''{}''\<rparr>]"
  by code_simp

text \<open>
  The matches of the pattern are the regions delimited by the sentinels: each lies in the
  text, is the begin sentinel, the group and the end sentinel, with no end sentinel
  starting inside the group; they are ordered and do not overlap; and every position
  where the pattern matches is the start of one of them or lies inside one.
\<close>

lemma finditer_regions:
  "(\<forall>m\<in>set (finditer s).
         span_end m \<le> length s
         \<and> take (span_end m - span_start m) (drop (span_start m) s) =
             strip CMD_OUTPUT_PS1_BEGIN @ group1 m @ strip CMD_OUTPUT_PS1_END
         \<and> (\<forall>k<length (group1 m).
               \<not> startswith
                   (drop (span_start m + length (strip CMD_OUTPUT_PS1_BEGIN) + k) s)
                   (strip CMD_OUTPUT_PS1_END)))
   \<and> sorted_wrt (\<lambda>a b. span_end a \<le> span_start b) (finditer s)
   \<and> (\<forall>p m. match_at s p = Some m \<longrightarrow>
         m \<in> set (finditer s)
         \<or> (\<exists>m'\<in>set (finditer s). span_start m' < p \<and> p < span_end m'))"
proof -
  have b: "span_end m \<le> length s
         \<and> take (span_end m - span_start m) (drop (span_start m) s) =
             strip CMD_OUTPUT_PS1_BEGIN @ group1 m @ strip CMD_OUTPUT_PS1_END
         \<and> (\<forall>k<length (group1 m).
               \<not> startswith
                   (drop (span_start m + length (strip CMD_OUTPUT_PS1_BEGIN) + k) s)
                   (strip CMD_OUTPUT_PS1_END))"
    if "m \<in> set (finditer s)" for m
  proof -
    from that have ma: "match_at s (span_start m) = Some m"
      using finditer_from_sound by (simp add: finditer_def)
    from lazy_until_Some[OF match_at_Some(5)[OF ma]]
    have "\<forall>k<length (group1 m). \<not> startswith
            (drop k (drop (length (strip CMD_OUTPUT_PS1_BEGIN)) (drop (span_start m) s)))
            (strip CMD_OUTPUT_PS1_END)"
      by simp
    then have "\<forall>k<length (group1 m). \<not> startswith
            (drop (span_start m + length (strip CMD_OUTPUT_PS1_BEGIN) + k) s)
            (strip CMD_OUTPUT_PS1_END)"
      by (simp add: add.commute add.left_commute)
    with match_at_region(1,2)[OF ma] show ?thesis by simp
  qed
  have c: "sorted_wrt (\<lambda>a b. span_end a \<le> span_start b) (finditer s)"
    by (simp add: finditer_def finditer_from_sorted)
  have d: "m \<in> set (finditer s)
         \<or> (\<exists>m'\<in>set (finditer s). span_start m' < p \<and> p < span_end m')"
    if "match_at s p = Some m" for p m
    using finditer_from_complete[of 0 p s m] that by (simp add: finditer_def)
  from b c d show ?thesis by blast
qed

text \<open>
  As long as the decoder raises nothing but \<^verbatim>\<open>JSONDecodeError\<close> on the stripped
  groups of a text, \<^verbatim>\<open>matches_ps1_metadata\<close> returns the matches whose stripped
  group decodes, in the order of the text: two valid blocks around a malformed one give
  the two valid blocks. As soon as the decoder raises another exception on one of the
  groups, the call raises and returns no list.
\<close>

lemma matches_ps1_metadata_returns:
  assumes "\<forall>m\<in>set (finditer s). \<forall>e. loads (strip (group1 m)) = Inl e \<longrightarrow> e = JSONDecodeError"
  shows "matches_ps1_metadata loads s =
           Inr (filter (\<lambda>m. \<not> isl (loads (strip (group1 m)))) (finditer s))"
  using collect_valid_returns[OF assms, of "[]"]
  by (simp add: matches_ps1_metadata_def)

lemma matches_ps1_metadata_raises:
  assumes "m \<in> set (finditer s)" and "loads (strip (group1 m)) = Inl e"
    and "e \<noteq> JSONDecodeError"
  shows "isl (matches_ps1_metadata loads s)"
  unfolding matches_ps1_metadata_def using assms by (rule collect_valid_raises)

lemma three_blocks_matches:
  "matches_ps1_metadata (\<lambda>t. if t = ''{}'' then Inr (PDict []) else Inl JSONDecodeError)
     ''###PS1JSON###\<newline>{}\<newline>###PS1END###\<newline>###PS1JSON###\<newline>{oops\<newline>###PS1END###\<newline>###PS1JSON###\<newline>{}\<newline>###PS1END###'' =
     Inr [\<lparr>span_start = 0, span_end = 29, group1 = ''\<newline>{}\<newline>''\<rparr>,
          \<lparr>span_start = 63, span_end = 92, group1 = ''\<newline>{}\<newline>''\<rparr>]"
  by (simp add: matches_ps1_metadata_def three_blocks_finditer strip_def isspace_def)

text \<open>
  The test is made on the stripped group, and \<^verbatim>\<open>str.strip\<close> removes more than the
  white space of JSON: a block whose content starts with a form feed is returned,
  although \<^verbatim>\<open>json.loads\<close> raises \<^verbatim>\<open>JSONDecodeError\<close> on the group as matched,
  which is what \<^verbatim>\<open>from_ps1_match\<close> decodes.
\<close>

lemma form_feed_finditer:
  "finditer (''###PS1JSON###'' @ CHR 0x0C # ''{}###PS1END###'') =
     [\<lparr>span_start = 0, span_end = 28, group1 = CHR 0x0C # ''{}''\<rparr>]"
  by code_simp

lemma form_feed_block:
  "matches_ps1_metadata (\<lambda>t. if t = ''{}'' then Inr (PDict []) else Inl JSONDecodeError)
     (''###PS1JSON###'' @ CHR 0x0C # ''{}###PS1END###'') =
     Inr [\<lparr>span_start = 0, span_end = 28, group1 = CHR 0x0C # ''{}''\<rparr>]"
  "from_ps1_match (\<lambda>t. if t = ''{}'' then Inr (PDict []) else Inl JSONDecodeError) lax
     \<lparr>span_start = 0, span_end = 28, group1 = CHR 0x0C # ''{}''\<rparr> = Inl JSONDecodeError"
  unfolding matches_ps1_metadata_def form_feed_finditer
  by (simp_all add: strip_def isspace_def from_ps1_match_def)

text \<open>
  A block that holds an integer literal of 4301 digits, after a valid block: the scan of
  the pattern, and the group as the source strips it.
\<close>

lemma lazy_until_replicate:
  "lazy_until ''###PS1END###'' (replicate n CHR ''1'' @ t) =
     map_option ((@) (replicate n CHR ''1'')) (lazy_until ''###PS1END###'' t)"
  by (induction n) (simp_all add: option.map_comp comp_def option.map_ident)

lemma finditer_from_end: "length s \<le> pos \<Longrightarrow> finditer_from s pos = []"
  by (simp add: finditer_from.simps[of s pos] finditer_from.simps[of s "Suc pos"]
      match_at_def strip_begin)

lemma strip_digits:
  "strip (CHR 0x0A # replicate (Suc n) CHR ''1'' @ [CHR 0x0A]) = replicate (Suc n) CHR ''1''"
proof -
  have "dropWhile isspace (replicate k CHR ''1'') = replicate k CHR ''1''" for k
    by (cases k) (simp_all add: isspace_def)
  then show ?thesis
    by (simp add: strip_def isspace_def del: replicate_Suc replicate.simps)
qed

lemma long_integer_finditer:
  "finditer (''###PS1JSON###\<newline>{}\<newline>###PS1END###\<newline>###PS1JSON###\<newline>''
             @ replicate 4301 CHR ''1'' @ ''\<newline>###PS1END###'') =
     [\<lparr>span_start = 0, span_end = 29, group1 = ''\<newline>{}\<newline>''\<rparr>,
      \<lparr>span_start = 30, span_end = 4358,
        group1 = CHR 0x0A # replicate 4301 CHR ''1'' @ [CHR 0x0A]\<rparr>]"
proof -
  define s where "s = ''###PS1JSON###\<newline>{}\<newline>###PS1END###\<newline>###PS1JSON###\<newline>''
             @ replicate 4301 CHR ''1'' @ ''\<newline>###PS1END###''"
  have m0: "match_at s 0 = Some \<lparr>span_start = 0, span_end = 29, group1 = ''\<newline>{}\<newline>''\<rparr>"
    by (simp add: s_def match_at_def strip_begin strip_end)
  have m29: "match_at s 29 = None"
    by (simp add: s_def match_at_def strip_begin strip_end)
  have m30: "match_at s 30 = Some \<lparr>span_start = 30, span_end = 4358,
        group1 = CHR 0x0A # replicate 4301 CHR ''1'' @ [CHR 0x0A]\<rparr>"
    by (simp add: s_def match_at_def strip_begin strip_end lazy_until_replicate)
  have l: "length s = 4358"
    by (simp add: s_def)
  have e: "finditer_from s 4358 = []"
    by (rule finditer_from_end) (simp add: l)
  have "finditer_from s 30 = [\<lparr>span_start = 30, span_end = 4358,
        group1 = CHR 0x0A # replicate 4301 CHR ''1'' @ [CHR 0x0A]\<rparr>]"
    by (subst finditer_from.simps) (simp add: m30 e l)
  then have "finditer_from s 29 = [\<lparr>span_start = 30, span_end = 4358,
        group1 = CHR 0x0A # replicate 4301 CHR ''1'' @ [CHR 0x0A]\<rparr>]"
    by (subst finditer_from.simps) (simp add: m29 l)
  then have "finditer_from s 0 =
     [\<lparr>span_start = 0, span_end = 29, group1 = ''\<newline>{}\<newline>''\<rparr>,
      \<lparr>span_start = 30, span_end = 4358,
        group1 = CHR 0x0A # replicate 4301 CHR ''1'' @ [CHR 0x0A]\<rparr>]"
    by (subst finditer_from.simps) (simp add: m0 l)
  then show ?thesis
    by (simp add: finditer_def s_def)
qed

text \<open>
  C1. \<^verbatim>\<open>matches_ps1_metadata\<close> is to return the regions whose content decodes as
  JSON, to drop a region that does not and go on with the next, and never to raise. The
  loop does skip a region on which \<^verbatim>\<open>json.loads\<close> raises \<^verbatim>\<open>JSONDecodeError\<close>
  (lemma \<open>matches_ps1_metadata_returns\<close>), but that is the only class its
  \<^verbatim>\<open>except\<close> clause names. On an integer literal of more than 4300 digits
  \<^verbatim>\<open>json.loads\<close> raises a plain \<^verbatim>\<open>ValueError\<close>, which is not a
  \<^verbatim>\<open>JSONDecodeError\<close>. The text below holds the valid block \<^verbatim>\<open>{}\<close> and then a
  block of 4301 digits: the call raises \<^verbatim>\<open>ValueError\<close>, the region is not dropped,
  and the valid block before it is lost with the list.
\<close>

theorem matches_ps1_metadata_long_integer:
  "matches_ps1_metadata
     (\<lambda>t. if t = ''{}'' then Inr (PDict [])
          else if t = replicate 4301 CHR ''1'' then Inl ValueError
          else Inl JSONDecodeError)
     (''###PS1JSON###\<newline>{}\<newline>###PS1END###\<newline>###PS1JSON###\<newline>''
        @ replicate 4301 CHR ''1'' @ ''\<newline>###PS1END###'')
   = Inl ValueError"
proof -
  have s1: "strip ''\<newline>{}\<newline>'' = ''{}''"
    by (simp add: strip_def isspace_def)
  have s2: "strip (CHR 0x0A # replicate 4301 CHR ''1'' @ [CHR 0x0A]) = replicate 4301 CHR ''1''"
    using strip_digits[of 4300] by simp
  have "length (replicate 4301 CHR ''1'') \<noteq> length ''{}''"
    by simp
  then have n: "replicate 4301 CHR ''1'' \<noteq> ''{}''"
    by (metis (no_types))
  show ?thesis
    unfolding matches_ps1_metadata_def long_integer_finditer
    by (simp add: s1 s2 n del: replicate_Suc replicate.simps)
qed

text \<open>
  C10. Every match that \<^verbatim>\<open>matches_ps1_metadata\<close> returns starts at the beginning of
  the text or right after a newline, with the begin sentinel: a block whose begin
  sentinel follows another character on its line is not returned, also when its content
  is valid JSON.
\<close>

theorem matches_ps1_metadata_line_start:
  "matches_ps1_metadata loads s = Inr ms \<Longrightarrow>
   \<forall>m\<in>set ms.
     (span_start m = 0 \<or> s ! (span_start m - 1) = CHR 0x0A)
     \<and> startswith (drop (span_start m) s) (strip CMD_OUTPUT_PS1_BEGIN)"
proof
  fix m assume r: "matches_ps1_metadata loads s = Inr ms" and "m \<in> set ms"
  then have "m \<in> set (finditer s)"
    using collect_valid_subset[of loads "finditer s" "[]" ms]
    by (auto simp: matches_ps1_metadata_def)
  then have ma: "match_at s (span_start m) = Some m"
    using finditer_from_sound by (simp add: finditer_def)
  from match_at_Some(2,3)[OF ma]
  show "(span_start m = 0 \<or> s ! (span_start m - 1) = CHR 0x0A)
     \<and> startswith (drop (span_start m) s) (strip CMD_OUTPUT_PS1_BEGIN)"
    by simp
qed

theorem matches_ps1_metadata_line_start_witness:
  "matches_ps1_metadata (\<lambda>t. if t = ''{}'' then Inr (PDict []) else Inl JSONDecodeError)
     ''echo ###PS1JSON###{}###PS1END###\<newline>###PS1JSON###{}###PS1END###'' =
     Inr [\<lparr>span_start = 33, span_end = 60, group1 = ''{}''\<rparr>]
   \<and> ''echo ###PS1JSON###{}###PS1END###\<newline>###PS1JSON###{}###PS1END###'' ! 32 = CHR 0x0A
   \<and> startswith (drop 5 ''echo ###PS1JSON###{}###PS1END###\<newline>###PS1JSON###{}###PS1END###'')
        (strip CMD_OUTPUT_PS1_BEGIN)"
proof -
  have r: "matches_ps1_metadata (\<lambda>t. if t = ''{}'' then Inr (PDict []) else Inl JSONDecodeError)
     ''echo ###PS1JSON###{}###PS1END###\<newline>###PS1JSON###{}###PS1END###'' =
     Inr [\<lparr>span_start = 33, span_end = 60, group1 = ''{}''\<rparr>]"
    by (simp add: matches_ps1_metadata_def mid_line_finditer strip_def isspace_def)
  have "\<forall>m\<in>set [\<lparr>span_start = 33, span_end = 60, group1 = ''{}''\<rparr>].
     (span_start m = 0 \<or>
        ''echo ###PS1JSON###{}###PS1END###\<newline>###PS1JSON###{}###PS1END###'' ! (span_start m - 1)
          = CHR 0x0A)
     \<and> startswith
         (drop (span_start m) ''echo ###PS1JSON###{}###PS1END###\<newline>###PS1JSON###{}###PS1END###'')
         (strip CMD_OUTPUT_PS1_BEGIN)"
    using matches_ps1_metadata_line_start[OF r] .
  then have "''echo ###PS1JSON###{}###PS1END###\<newline>###PS1JSON###{}###PS1END###'' ! 32 = CHR 0x0A"
    by simp
  moreover have "startswith
      (drop 5 ''echo ###PS1JSON###{}###PS1END###\<newline>###PS1JSON###{}###PS1END###'')
      (strip CMD_OUTPUT_PS1_BEGIN)"
    by (simp add: strip_begin)
  ultimately show ?thesis using r by simp
qed

subsection \<open>Numeric coercion of the metadata\<close>

text \<open>
  The coercion \<^verbatim>\<open>int(float(str(v)))\<close> on the values named by the specification, and on
  an infinite one.
\<close>

lemma py_float_inf: "py_float ''inf'' = Inr PosInf"
  by (simp add: py_float_def float_isspace_def split_sign_def lower_def)

lemma coerce_inf: "coerce (PStr ''inf'') = Inl OverflowError"
  by (simp add: coerce_def py_float_inf py_int_def)

lemma coerce_na: "coerce (PStr ''N/A'') = Inl ValueError"
  by (simp add: coerce_def py_float_def float_isspace_def split_sign_def lower_def
      parse_decimal_def isdigit_def)

lemma parse_12: "parse_decimal ''12.0'' = Some 12"
  by (simp add: parse_decimal_def isdigit_def digit_value_def power_int_def)

lemma parse_0: "parse_decimal ''0'' = Some 0"
  by (simp add: parse_decimal_def isdigit_def digit_value_def power_int_def)

lemma round_12: "round_double 12 = Fin 12"
  by code_simp

lemma coerce_12: "coerce (PStr ''12.0'') = Inr 12"
  by (simp add: coerce_def py_float_def float_isspace_def split_sign_def lower_def
      parse_12 round_12 py_int_def)

lemma coerce_0: "coerce (PStr ''0'') = Inr 0"
  by (simp add: coerce_def py_float_def float_isspace_def split_sign_def lower_def
      parse_0 round_double_def py_int_def)

text \<open>
  Whenever \<^verbatim>\<open>from_ps1_match\<close> returns, \<^verbatim>\<open>pid\<close> and \<^verbatim>\<open>exit_code\<close> are the coerced
  integers, or \<open>- 1\<close> where the key is absent or the coercion raised.
\<close>

lemma map_of_dict_set: "map_of (dict_set d k v) = (map_of d)(k \<mapsto> v)"
  by (induction d k v rule: dict_set.induct) auto

lemma coerce_field_cases:
  "coerce_field d processed key = Inr p \<Longrightarrow>
     (map_of d key = None \<and> p = processed)
     \<or> (\<exists>v i. map_of d key = Some v \<and> coerce v = Inr i
              \<and> p = dict_set processed key (PInt i))
     \<or> (\<exists>v e. map_of d key = Some v \<and> coerce v = Inl e
              \<and> p = dict_set processed key (PInt (- 1)))"
  by (auto simp: coerce_field_def split: option.splits sum.splits if_splits)

lemma metadata_of_dict_ints:
  "metadata_of_dict lax d = Inr md \<Longrightarrow> map_of d ''exit_code'' = Some (PInt e) \<Longrightarrow>
     exit_code md = e"
  "metadata_of_dict lax d = Inr md \<Longrightarrow> map_of d ''exit_code'' = None \<Longrightarrow> exit_code md = - 1"
  "metadata_of_dict lax d = Inr md \<Longrightarrow> map_of d ''pid'' = Some (PInt p) \<Longrightarrow> pid md = p"
  "metadata_of_dict lax d = Inr md \<Longrightarrow> map_of d ''pid'' = None \<Longrightarrow> pid md = - 1"
  by (auto simp: metadata_of_dict_def validate_int_def split: option.splits)

lemma from_ps1_match_fields:
  assumes "loads (group1 m) = Inr (PDict d)"
    and "from_ps1_match loads lax m = Inr md"
  shows "exit_code md = coerced_or_default d ''exit_code''"
    and "pid md = coerced_or_default d ''pid''"
proof -
  from assms obtain p1 p2 where
    p1: "coerce_field d d ''pid'' = Inr p1" and
    p2: "coerce_field d p1 ''exit_code'' = Inr p2" and
    md: "metadata_of_dict lax p2 = Inr md"
    by (auto simp: from_ps1_match_def split: sum.splits)
  have pid1: "map_of p1 ''pid'' =
      (case map_of d ''pid'' of None \<Rightarrow> None
       | Some v \<Rightarrow> Some (PInt (coerced_or_default d ''pid'')))"
    using coerce_field_cases[OF p1]
    by (auto simp: map_of_dict_set coerced_or_default_def)
  have ex1: "map_of p1 ''exit_code'' = map_of d ''exit_code''"
    using coerce_field_cases[OF p1] by (auto simp: map_of_dict_set)
  have ex2: "map_of p2 ''exit_code'' =
      (case map_of d ''exit_code'' of None \<Rightarrow> None
       | Some v \<Rightarrow> Some (PInt (coerced_or_default d ''exit_code'')))"
    using coerce_field_cases[OF p2] ex1
    by (auto simp: map_of_dict_set coerced_or_default_def)
  have pid2: "map_of p2 ''pid'' = map_of p1 ''pid''"
    using coerce_field_cases[OF p2] by (auto simp: map_of_dict_set)
  show "exit_code md = coerced_or_default d ''exit_code''"
    using metadata_of_dict_ints(1,2)[OF md] ex2
    by (cases "map_of d ''exit_code''") (auto simp: coerced_or_default_def)
  show "pid md = coerced_or_default d ''pid''"
    using metadata_of_dict_ints(3,4)[OF md] pid1 pid2
    by (cases "map_of d ''pid''") (auto simp: coerced_or_default_def)
qed

lemma inf_block_finditer:
  \<open>finditer ''###PS1JSON###\<newline>{"pid": "7", "exit_code": "inf"}\<newline>###PS1END###'' =
     [\<lparr>span_start = 0, span_end = 59,
       group1 = ''\<newline>{"pid": "7", "exit_code": "inf"}\<newline>''\<rparr>]\<close>
  by code_simp

text \<open>
  C4. On a decoded dictionary, \<^verbatim>\<open>from_ps1_match\<close> coerces \<^verbatim>\<open>pid\<close> and
  \<^verbatim>\<open>exit_code\<close> by \<^verbatim>\<open>int(float(str(v)))\<close>, and whenever it returns a
  \<^verbatim>\<open>CmdOutputMetadata\<close> both fields are the coerced integer, or \<open>- 1\<close> where the
  key is absent or the coercion raised (lemma \<open>from_ps1_match_fields\<close>; the values
  \<^verbatim>\<open>"0"\<close>, \<^verbatim>\<open>"12.0"\<close> and \<^verbatim>\<open>"N/A"\<close> give 0, 12 and \<open>- 1\<close>). But not
  every coercion failure ends in \<open>- 1\<close>: \<^verbatim>\<open>int\<close> of an infinite float raises
  \<^verbatim>\<open>OverflowError\<close>, which the handler for \<^verbatim>\<open>(ValueError, TypeError)\<close> does not
  catch. On the block below, which \<^verbatim>\<open>matches_ps1_metadata\<close> returns as valid, the
  call raises and no \<^verbatim>\<open>CmdOutputMetadata\<close> is built.
\<close>

theorem from_ps1_match_inf:
  \<open>matches_ps1_metadata
      (\<lambda>t. if strip t = ''{"pid": "7", "exit_code": "inf"}''
           then Inr (PDict [(''pid'', PStr ''7''), (''exit_code'', PStr ''inf'')])
           else Inl JSONDecodeError)
      ''###PS1JSON###\<newline>{"pid": "7", "exit_code": "inf"}\<newline>###PS1END###''
    = Inr [\<lparr>span_start = 0, span_end = 59,
            group1 = ''\<newline>{"pid": "7", "exit_code": "inf"}\<newline>''\<rparr>]
   \<and> from_ps1_match
        (\<lambda>t. if strip t = ''{"pid": "7", "exit_code": "inf"}''
             then Inr (PDict [(''pid'', PStr ''7''), (''exit_code'', PStr ''inf'')])
             else Inl JSONDecodeError)
        strict_int
        \<lparr>span_start = 0, span_end = 59,
          group1 = ''\<newline>{"pid": "7", "exit_code": "inf"}\<newline>''\<rparr>
      = Inl OverflowError\<close>
proof -
  have s: \<open>strip ''\<newline>{"pid": "7", "exit_code": "inf"}\<newline>'' =
           ''{"pid": "7", "exit_code": "inf"}''\<close>
    by (simp add: strip_def isspace_def)
  have s': \<open>strip ''{"pid": "7", "exit_code": "inf"}'' =
           ''{"pid": "7", "exit_code": "inf"}''\<close>
    by (simp add: strip_def isspace_def)
  have c7: "coerce (PStr ''7'') = Inr 7"
    by code_simp
  show ?thesis
    by (simp add: matches_ps1_metadata_def inf_block_finditer s s' from_ps1_match_def
        coerce_field_def c7 coerce_inf)
qed

end
